theory Spec2Isabelle
  imports Main "HOL-Library.Multiset"
begin

section \<open>Python values used by the backend\<close>

text \<open>
  A Python \<open>str\<close> is modelled as a \<open>string\<close> whose characters are the code points
  0..255, one \<open>char\<close> per code point, so \<open>length\<close> is Python's \<open>len\<close> on that range.
  A naive \<open>datetime\<close> is the number of microseconds since 1970-01-01 00:00:00 of its
  own wall clock; \<open>datetime.utcnow()\<close> is an explicit argument \<open>now\<close> of every function
  that reads the clock.
\<close>

type_synonym datetime = int

text \<open>\<open>str.isspace\<close> on one character, for the code points below 256.\<close>

definition isspace :: "char \<Rightarrow> bool" where
  "isspace c = ((of_char c :: nat) \<in> {9, 10, 11, 12, 13, 28, 29, 30, 31, 32, 133, 160})"

text \<open>\<open>s.strip()\<close>: leading and trailing whitespace removed.\<close>

definition strip :: "string \<Rightarrow> string" where
  "strip s = rev (dropWhile isspace (rev (dropWhile isspace s)))"

text \<open>
  \<open>s.split()\<close>: the maximal runs of non-whitespace characters, in order. \<open>cur\<close> holds
  the current run reversed.
\<close>

fun split_run :: "string \<Rightarrow> string \<Rightarrow> string list" where
  "split_run cur [] = (if cur = [] then [] else [rev cur])"
| "split_run cur (c # cs) =
     (if isspace c then (if cur = [] then split_run [] cs else rev cur # split_run [] cs)
      else split_run (c # cur) cs)"

definition split :: "string \<Rightarrow> string list" where
  "split s = split_run [] s"

text \<open>\<open>s.lower()\<close> on the code points below 256: A-Z and the Latin-1 capitals.\<close>

definition lower_char :: "char \<Rightarrow> char" where
  "lower_char c =
     (let n = (of_char c :: nat)
      in if (65 \<le> n \<and> n \<le> 90) \<or> (192 \<le> n \<and> n \<le> 222 \<and> n \<noteq> 215)
         then char_of (n + 32) else c)"

definition lower :: "string \<Rightarrow> string" where
  "lower s = map lower_char s"

text \<open>
  The JSON values a token payload carries. Floating-point numbers are left out: a numeric
  claim is an integer.
\<close>

datatype json = JNone | JBool bool | JInt int | JStr string

text \<open>A \<open>dict\<close> with string keys, in insertion order; \<open>d.get(k)\<close> is \<open>None\<close> on a missing key.\<close>

type_synonym payload = "(string \<times> json) list"

definition py_get :: "payload \<Rightarrow> string \<Rightarrow> json" where
  "py_get d k = (case map_of d k of None \<Rightarrow> JNone | Some v \<Rightarrow> v)"

text \<open>Python truthiness of a value, as \<open>if exp and ...\<close> tests it.\<close>

fun truthy :: "json \<Rightarrow> bool" where
  "truthy JNone = False"
| "truthy (JBool b) = b"
| "truthy (JInt n) = (n \<noteq> 0)"
| "truthy (JStr s) = (s \<noteq> [])"

datatype py_error = TypeError | ValueError | OverflowError

text \<open>
  \<open>datetime.fromtimestamp(exp)\<close>: the naive local time of a POSIX timestamp given in
  seconds. \<open>utcoffset t\<close> is the offset of the server's time zone from UTC, in seconds, at
  the instant \<open>t\<close>. A value that is not a number raises \<open>TypeError\<close>; a local time
  outside the years 1..9999 raises.
\<close>

definition MIN_SECONDS :: int where
  "MIN_SECONDS = - 62135596800"

definition MAX_SECONDS :: int where
  "MAX_SECONDS = 253402300799"

text \<open>The number a JSON value stands for where Python expects one; \<open>bool\<close> is an \<open>int\<close>.\<close>

fun as_number :: "json \<Rightarrow> int option" where
  "as_number (JInt t) = Some t"
| "as_number (JBool b) = Some (if b then 1 else 0)"
| "as_number (JStr s) = None"
| "as_number JNone = None"

definition fromtimestamp :: "(int \<Rightarrow> int) \<Rightarrow> json \<Rightarrow> py_error + datetime" where
  "fromtimestamp utcoffset v =
     (case as_number v of
        None \<Rightarrow> Inl TypeError
      | Some t \<Rightarrow>
          if MIN_SECONDS \<le> t + utcoffset t \<and> t + utcoffset t \<le> MAX_SECONDS
          then Inr ((t + utcoffset t) * 1000000) else Inl OverflowError)"

text \<open>The time zone of a server whose local time is UTC.\<close>

definition UTC :: "int \<Rightarrow> int" where
  "UTC t = 0"

section \<open>utils/jwt.py\<close>

text \<open>
  \<open>jwt.decode\<close> belongs to the PyJWT library, which is not part of the repository: it is
  the parameter \<open>jwt_decode\<close>, called with the token and the key, returning the payload
  or the exception it raises. \<open>SECRET_KEY\<close> is process-wide configuration, a parameter
  as well.
\<close>

datatype jwt_exception = InvalidTokenError | OtherException

type_synonym decoder = "string \<Rightarrow> string \<Rightarrow> jwt_exception + payload"

definition verify_jwt ::
  "decoder \<Rightarrow> string \<Rightarrow> (int \<Rightarrow> int) \<Rightarrow> datetime \<Rightarrow> string \<Rightarrow> payload option" where
  "verify_jwt jwt_decode SECRET_KEY utcoffset now token =
     (case jwt_decode token SECRET_KEY of
        Inl InvalidTokenError \<Rightarrow> None
      | Inl OtherException \<Rightarrow> None
      | Inr payload \<Rightarrow>
          (let exp = py_get payload ''exp''
           in if truthy exp
              then (case fromtimestamp utcoffset exp of
                      Inl e \<Rightarrow> None
                    | Inr expires \<Rightarrow> if expires < now then None else Some payload)
              else Some payload))"

definition get_user_id_from_token ::
  "decoder \<Rightarrow> string \<Rightarrow> (int \<Rightarrow> int) \<Rightarrow> datetime \<Rightarrow> string \<Rightarrow> json" where
  "get_user_id_from_token jwt_decode SECRET_KEY utcoffset now token =
     (case verify_jwt jwt_decode SECRET_KEY utcoffset now token of
        None \<Rightarrow> JNone
      | Some payload \<Rightarrow> if payload = [] then JNone else py_get payload ''sub'')"

subsection \<open>The expiry check of the library\<close>

text \<open>
  PyJWT is not part of the repository. With the default options that line 27 of
  \<open>utils/jwt.py\<close> uses, \<open>jwt.decode\<close> validates \<open>exp\<close> itself whenever the payload has that
  key: it converts the value with \<open>int\<close>, raises \<open>DecodeError\<close> when that conversion
  raises \<open>ValueError\<close>, and raises \<open>ExpiredSignatureError\<close> when the value is at or before
  its own clock reading. Both are subclasses of \<open>InvalidTokenError\<close>; a \<open>TypeError\<close> of
  the conversion is not caught by the library. This part is written out below. Every
  other check of the library (signature, structure, the claims other than \<open>exp\<close>) is
  the parameter \<open>checks\<close>; \<open>int\<close> on a string is the parameter \<open>int_of_str\<close>, \<open>None\<close> where
  it raises \<open>ValueError\<close>; \<open>now\<close> is the library's clock reading, in microseconds.
\<close>

fun py_int :: "(string \<Rightarrow> int option) \<Rightarrow> json \<Rightarrow> py_error + int" where
  "py_int int_of_str (JInt n) = Inr n"
| "py_int int_of_str (JBool b) = Inr (if b then 1 else 0)"
| "py_int int_of_str (JStr s) =
     (case int_of_str s of None \<Rightarrow> Inl ValueError | Some n \<Rightarrow> Inr n)"
| "py_int int_of_str JNone = Inl TypeError"

definition pyjwt_decode :: "decoder \<Rightarrow> (string \<Rightarrow> int option) \<Rightarrow> datetime \<Rightarrow> decoder" where
  "pyjwt_decode checks int_of_str now token key =
     (case checks token key of
        Inl e \<Rightarrow> Inl e
      | Inr payload \<Rightarrow>
          (case map_of payload ''exp'' of
             None \<Rightarrow> Inr payload
           | Some v \<Rightarrow>
               (case py_int int_of_str v of
                  Inl ValueError \<Rightarrow> Inl InvalidTokenError
                | Inl e \<Rightarrow> Inl OtherException
                | Inr exp \<Rightarrow>
                    if exp * 1000000 \<le> now then Inl InvalidTokenError else Inr payload)))"

section \<open>middleware/auth.py\<close>

datatype HTTPException = HTTPException (status_code: nat) (detail: string)

record Request =
  state_user_id :: json
  state_user_email :: json

text \<open>
  \<open>auth_header\<close> is \<open>request.headers.get("Authorization")\<close>. The middleware either raises
  or returns the request with the two attributes of \<open>request.state\<close> set.
\<close>

definition verify_jwt_middleware ::
  "decoder \<Rightarrow> string \<Rightarrow> (int \<Rightarrow> int) \<Rightarrow> datetime \<Rightarrow> string option
     \<Rightarrow> HTTPException + Request" where
  "verify_jwt_middleware jwt_decode SECRET_KEY utcoffset now auth_header =
     (case auth_header of
        None \<Rightarrow> Inl (HTTPException 401 ''Missing Authorization header'')
      | Some header \<Rightarrow>
          if header = [] then Inl (HTTPException 401 ''Missing Authorization header'')
          else (case split header of
                  [scheme, token] \<Rightarrow>
                    if lower scheme \<noteq> ''bearer''
                    then Inl (HTTPException 401
                           ''Invalid Authorization header format. Expected: Bearer <token>'')
                    else (case verify_jwt jwt_decode SECRET_KEY utcoffset now token of
                            None \<Rightarrow> Inl (HTTPException 401 ''Invalid or expired token'')
                          | Some payload \<Rightarrow>
                              if payload = []
                              then Inl (HTTPException 401 ''Invalid or expired token'')
                              else Inr \<lparr>state_user_id = py_get payload ''sub'',
                                        state_user_email = py_get payload ''email''\<rparr>)
                | _ \<Rightarrow> Inl (HTTPException 401
                           ''Invalid Authorization header format. Expected: Bearer <token>'')))"

section \<open>schemas.py\<close>

record TaskCreate =
  title :: string
  description :: "string option"

record TaskUpdate =
  title :: "string option"
  description :: "string option"

text \<open>
  The declarative constraints of the two request schemas, as the validation that runs on
  the JSON body before the handler is called: the type of each field, then
  \<open>min_length\<close> and \<open>max_length\<close> on the value as sent. The first failing field is
  reported.
\<close>

datatype validation_error =
    missing string
  | string_type string
  | string_too_short string
  | string_too_long string

definition validate_TaskCreate :: "payload \<Rightarrow> validation_error + TaskCreate" where
  "validate_TaskCreate body =
     (case map_of body ''title'' of
        None \<Rightarrow> Inl (missing ''title'')
      | Some (JStr t) \<Rightarrow>
          if length t < 1 then Inl (string_too_short ''title'')
          else if 200 < length t then Inl (string_too_long ''title'')
          else (case py_get body ''description'' of
                  JNone \<Rightarrow> Inr \<lparr>TaskCreate.title = t, TaskCreate.description = None\<rparr>
                | JStr d \<Rightarrow>
                    if 1000 < length d then Inl (string_too_long ''description'')
                    else Inr \<lparr>TaskCreate.title = t, TaskCreate.description = Some d\<rparr>
                | _ \<Rightarrow> Inl (string_type ''description''))
      | Some _ \<Rightarrow> Inl (string_type ''title''))"

definition validate_TaskUpdate :: "payload \<Rightarrow> validation_error + TaskUpdate" where
  "validate_TaskUpdate body =
     (case py_get body ''title'' of
        JNone \<Rightarrow>
          (case py_get body ''description'' of
             JNone \<Rightarrow> Inr \<lparr>TaskUpdate.title = None, TaskUpdate.description = None\<rparr>
           | JStr d \<Rightarrow>
               if 1000 < length d then Inl (string_too_long ''description'')
               else Inr \<lparr>TaskUpdate.title = None, TaskUpdate.description = Some d\<rparr>
           | _ \<Rightarrow> Inl (string_type ''description''))
      | JStr t \<Rightarrow>
          if length t < 1 then Inl (string_too_short ''title'')
          else if 200 < length t then Inl (string_too_long ''title'')
          else (case py_get body ''description'' of
                  JNone \<Rightarrow> Inr \<lparr>TaskUpdate.title = Some t, TaskUpdate.description = None\<rparr>
                | JStr d \<Rightarrow>
                    if 1000 < length d then Inl (string_too_long ''description'')
                    else Inr \<lparr>TaskUpdate.title = Some t, TaskUpdate.description = Some d\<rparr>
                | _ \<Rightarrow> Inl (string_type ''description''))
      | _ \<Rightarrow> Inl (string_type ''title''))"

section \<open>models.py\<close>

text \<open>
  A row of the table \<open>tasks\<close>. \<open>TaskResponse\<close> has the same seven fields, and
  \<open>TaskResponse.model_validate(task).model_dump()\<close> copies them one by one, so the
  response carries the row itself.
\<close>

record Task =
  id_pk :: int
  user_id :: string
  title :: string
  description :: "string option"
  completed :: bool
  created_at :: datetime
  updated_at :: datetime

definition model_dump :: "Task \<Rightarrow> Task" where
  "model_dump task = task"

datatype response_data =
    TaskData Task
  | TaskList "Task list"
  | DictData "(string \<times> string) list"

record ApiResponse =
  success :: bool
  data :: "response_data option"
  error :: "(string \<times> string) list option"

section \<open>database.py: the session\<close>

text \<open>
  The state behind a \<open>Session\<close>: the rows of \<open>tasks\<close>, the next value of the
  primary-key sequence, and a record of every access the handlers make, so that "before
  any store access" can be stated.
\<close>

datatype access = Read | Write

record Session =
  rows :: "Task list"
  next_id :: int
  accesses :: "access list"

text \<open>\<open>session.get(Task, task_id)\<close>: the row with that primary key, or \<open>None\<close>.\<close>

definition session_get :: "Session \<Rightarrow> int \<Rightarrow> Task option \<times> Session" where
  "session_get session task_id =
     (find (\<lambda>r. id_pk r = task_id) (rows session),
      session\<lparr>accesses := accesses session @ [Read]\<rparr>)"

text \<open>
  \<open>session.exec(query).all()\<close> for the query the list handler builds: the rows that
  satisfy the \<open>where\<close> clause, \<open>ORDER BY created_at DESC\<close>. Rows with equal
  \<open>created_at\<close> keep their table order here; SQL leaves their order open.
\<close>

definition session_exec :: "Session \<Rightarrow> (Task \<Rightarrow> bool) \<Rightarrow> Task list \<times> Session" where
  "session_exec session where_clause =
     (sort_key (\<lambda>r. - created_at r) (filter where_clause (rows session)),
      session\<lparr>accesses := accesses session @ [Read]\<rparr>)"

text \<open>
  \<open>session.add(task); session.commit(); session.refresh(task)\<close> for a new object: the
  store assigns the primary key.
\<close>

definition session_insert :: "Session \<Rightarrow> Task \<Rightarrow> Task \<times> Session" where
  "session_insert session task =
     (let persisted = task\<lparr>id_pk := next_id session\<rparr>
      in (persisted,
          session\<lparr>rows := rows session @ [persisted],
                  next_id := next_id session + 1,
                  accesses := accesses session @ [Write, Read]\<rparr>))"

text \<open>The same three calls for an object loaded from the session: its row is rewritten.\<close>

definition session_update :: "Session \<Rightarrow> Task \<Rightarrow> Task \<times> Session" where
  "session_update session task =
     (task,
      session\<lparr>rows := map (\<lambda>r. if id_pk r = id_pk task then task else r) (rows session),
              accesses := accesses session @ [Write, Read]\<rparr>)"

text \<open>\<open>session.delete(task); session.commit()\<close>.\<close>

definition session_delete :: "Session \<Rightarrow> Task \<Rightarrow> Session" where
  "session_delete session task =
     session\<lparr>rows := filter (\<lambda>r. id_pk r \<noteq> id_pk task) (rows session),
             accesses := accesses session @ [Write]\<rparr>"

section \<open>routes/tasks.py\<close>

text \<open>
  Each handler takes the path parameters, the validated body where it has one, the
  request as the middleware left it, the session and the clock readings it makes. It
  returns the exception it raises or the envelope it returns, and the session afterwards.
\<close>

type_synonym response = "(HTTPException + ApiResponse) \<times> Session"

definition list_tasks :: "string \<Rightarrow> Request \<Rightarrow> Session \<Rightarrow> string \<Rightarrow> response" where
  "list_tasks path_user_id request session filter_status =
     (if state_user_id request \<noteq> JStr path_user_id
      then (Inl (HTTPException 403 ''Cannot access other users' tasks''), session)
      else
        let query = (\<lambda>r. user_id r = path_user_id);
            query = (if filter_status = ''pending''
                     then (\<lambda>r. query r \<and> completed r = False)
                     else if filter_status = ''completed''
                     then (\<lambda>r. query r \<and> completed r = True)
                     else query);
            (tasks, session) = session_exec session query
        in (Inr \<lparr>success = True, data = Some (TaskList (map model_dump tasks)),
                 error = None\<rparr>,
            session))"

text \<open>
  The two timestamps of a new row come from two calls of \<open>datetime.utcnow\<close>, the default
  factories of \<open>created_at\<close> and \<open>updated_at\<close>. The object has no \<open>id\<close> until the store
  assigns one on commit; the 0 below stands for that \<open>None\<close> and is never read.
\<close>

definition create_task ::
  "string \<Rightarrow> TaskCreate \<Rightarrow> Request \<Rightarrow> Session \<Rightarrow> datetime \<Rightarrow> datetime \<Rightarrow> response" where
  "create_task path_user_id task_data request session now_created now_updated =
     (if state_user_id request \<noteq> JStr path_user_id
      then (Inl (HTTPException 403 ''Cannot create tasks for other users''), session)
      else
        let task = \<lparr>id_pk = 0,
                    user_id = path_user_id,
                    title = strip (TaskCreate.title task_data),
                    description =
                      (case TaskCreate.description task_data of
                         None \<Rightarrow> None
                       | Some d \<Rightarrow> if d \<noteq> [] then Some (strip d) else None),
                    completed = False,
                    created_at = now_created,
                    updated_at = now_updated\<rparr>;
            (task, session) = session_insert session task
        in (Inr \<lparr>success = True, data = Some (TaskData (model_dump task)), error = None\<rparr>,
            session))"

definition get_task :: "string \<Rightarrow> int \<Rightarrow> Request \<Rightarrow> Session \<Rightarrow> response" where
  "get_task path_user_id task_id request session =
     (if state_user_id request \<noteq> JStr path_user_id
      then (Inl (HTTPException 403 ''Cannot access other users' tasks''), session)
      else
        let (found, session) = session_get session task_id
        in case found of
             None \<Rightarrow> (Inl (HTTPException 404 ''Task not found''), session)
           | Some task \<Rightarrow>
               if user_id task \<noteq> path_user_id
               then (Inl (HTTPException 404 ''Task not found''), session)
               else (Inr \<lparr>success = True, data = Some (TaskData (model_dump task)),
                          error = None\<rparr>,
                     session))"

definition update_task ::
  "string \<Rightarrow> int \<Rightarrow> TaskUpdate \<Rightarrow> Request \<Rightarrow> Session \<Rightarrow> datetime \<Rightarrow> response" where
  "update_task path_user_id task_id task_data request session now =
     (if state_user_id request \<noteq> JStr path_user_id
      then (Inl (HTTPException 403 ''Cannot update other users' tasks''), session)
      else
        let (found, session) = session_get session task_id
        in case found of
             None \<Rightarrow> (Inl (HTTPException 404 ''Task not found''), session)
           | Some task \<Rightarrow>
               if user_id task \<noteq> path_user_id
               then (Inl (HTTPException 404 ''Task not found''), session)
               else
                 let task = (case TaskUpdate.title task_data of
                               None \<Rightarrow> task
                             | Some t \<Rightarrow> task\<lparr>title := strip t\<rparr>);
                     task = (case TaskUpdate.description task_data of
                               None \<Rightarrow> task
                             | Some d \<Rightarrow> task\<lparr>description := Some (strip d)\<rparr>);
                     task = task\<lparr>updated_at := now\<rparr>;
                     (task, session) = session_update session task
                 in (Inr \<lparr>success = True, data = Some (TaskData (model_dump task)),
                          error = None\<rparr>,
                     session))"

definition delete_task :: "string \<Rightarrow> int \<Rightarrow> Request \<Rightarrow> Session \<Rightarrow> response" where
  "delete_task path_user_id task_id request session =
     (if state_user_id request \<noteq> JStr path_user_id
      then (Inl (HTTPException 403 ''Cannot delete other users' tasks''), session)
      else
        let (found, session) = session_get session task_id
        in case found of
             None \<Rightarrow> (Inl (HTTPException 404 ''Task not found''), session)
           | Some task \<Rightarrow>
               if user_id task \<noteq> path_user_id
               then (Inl (HTTPException 404 ''Task not found''), session)
               else
                 let session = session_delete session task
                 in (Inr \<lparr>success = True,
                          data = Some (DictData [(''message'', ''Task deleted successfully'')]),
                          error = None\<rparr>,
                     session))"

definition toggle_task_completion ::
  "string \<Rightarrow> int \<Rightarrow> Request \<Rightarrow> Session \<Rightarrow> datetime \<Rightarrow> response" where
  "toggle_task_completion path_user_id task_id request session now =
     (if state_user_id request \<noteq> JStr path_user_id
      then (Inl (HTTPException 403 ''Cannot update other users' tasks''), session)
      else
        let (found, session) = session_get session task_id
        in case found of
             None \<Rightarrow> (Inl (HTTPException 404 ''Task not found''), session)
           | Some task \<Rightarrow>
               if user_id task \<noteq> path_user_id
               then (Inl (HTTPException 404 ''Task not found''), session)
               else
                 let task = task\<lparr>completed := \<not> completed task\<rparr>;
                     task = task\<lparr>updated_at := now\<rparr>;
                     (task, session) = session_update session task
                 in (Inr \<lparr>success = True, data = Some (TaskData (model_dump task)),
                          error = None\<rparr>,
                     session))"

text \<open>
  The two shapes a handler's outcome takes: an exception raised with one of the given
  status codes, or an envelope with \<open>success\<close> true, \<open>data\<close> present and \<open>error\<close> absent.
\<close>

definition raised_or_success :: "nat set \<Rightarrow> HTTPException + ApiResponse \<Rightarrow> bool" where
  "raised_or_success codes r =
     (case r of
        Inl exc \<Rightarrow> status_code exc \<in> codes
      | Inr envelope \<Rightarrow> success envelope \<and> data envelope \<noteq> None \<and> error envelope = None)"

section \<open>Example data\<close>

text \<open>Two users, three rows, and the requests the middleware leaves for each user.\<close>

definition request_u1 :: Request where
  "request_u1 = \<lparr>state_user_id = JStr ''u1'', state_user_email = JStr ''u1@example.com''\<rparr>"

definition request_u2 :: Request where
  "request_u2 = \<lparr>state_user_id = JStr ''u2'', state_user_email = JStr ''u2@example.com''\<rparr>"

definition milk :: Task where
  "milk = \<lparr>id_pk = 5, user_id = ''u1'', title = ''Buy milk'', description = None,
            completed = False, created_at = 1700000000000000,
            updated_at = 1700000000000000\<rparr>"

definition bread :: Task where
  "bread = \<lparr>id_pk = 6, user_id = ''u2'', title = ''Bake bread'', description = Some ''rye'',
             completed = False, created_at = 1700000100000000,
             updated_at = 1700000100000000\<rparr>"

definition taxes :: Task where
  "taxes = \<lparr>id_pk = 7, user_id = ''u1'', title = ''File taxes'', description = None,
             completed = True, created_at = 1700000200000000,
             updated_at = 1700000300000000\<rparr>"

definition example_session :: Session where
  "example_session = \<lparr>rows = [milk, bread, taxes], next_id = 8, accesses = []\<rparr>"

definition empty_session :: Session where
  "empty_session = \<lparr>rows = [], next_id = 1, accesses = []\<rparr>"

text \<open>
  A stand-in for \<open>jwt.decode\<close> in the examples: under the key \<open>secret\<close> it accepts two
  tokens, one without \<open>exp\<close> and one with \<open>exp\<close> 1700000000 (in seconds), and rejects
  everything else.
\<close>

definition example_decode :: decoder where
  "example_decode token key =
     (if key = ''secret'' \<and> token = ''no-exp''
      then Inr [(''sub'', JStr ''u1''), (''email'', JStr ''u1@example.com'')]
      else if key = ''secret'' \<and> token = ''exp-1700000000''
      then Inr [(''sub'', JStr ''u1''), (''email'', JStr ''u1@example.com''),
                (''exp'', JInt 1700000000)]
      else Inl InvalidTokenError)"

text \<open>
  A stand-in for the signature check in the examples: under the key \<open>secret\<close> the
  signatures of two tokens verify, one without \<open>exp\<close> and one with \<open>exp\<close> 0. No \<open>exp\<close> of
  the examples is a string, so the stand-in for \<open>int\<close> on strings reads the one numeral
  \<open>0\<close> only.
\<close>

definition example_checks :: decoder where
  "example_checks token key =
     (if key = ''secret'' \<and> token = ''no-exp''
      then Inr [(''sub'', JStr ''u1''), (''email'', JStr ''u1@example.com'')]
      else if key = ''secret'' \<and> token = ''exp-zero''
      then Inr [(''sub'', JStr ''u1''), (''email'', JStr ''u1@example.com''), (''exp'', JInt 0)]
      else Inl InvalidTokenError)"

definition example_int :: "string \<Rightarrow> int option" where
  "example_int s = (if s = ''0'' then Some 0 else None)"

section \<open>Rows and primary keys\<close>

lemma find_stored:
  "distinct (map id_pk rs) \<Longrightarrow> t \<in> set rs \<Longrightarrow> find (\<lambda>r. id_pk r = id_pk t) rs = Some t"
  by (induction rs) (auto simp: image_iff)

lemma find_after_update:
  "find (\<lambda>r. id_pk r = k) rs = Some t \<Longrightarrow> id_pk t' = k \<Longrightarrow>
   find (\<lambda>r. id_pk r = k) (map (\<lambda>r. if id_pk r = id_pk t' then t' else r) rs) = Some t'"
  by (induction rs) (auto split: if_splits)

lemma map_update_distinct:
  "distinct (map id_pk rs) \<Longrightarrow> i < length rs \<Longrightarrow> id_pk t' = id_pk (rs ! i) \<Longrightarrow>
   map (\<lambda>r. if id_pk r = id_pk t' then t' else r) rs = rs[i := t']"
proof (induction rs arbitrary: i)
  case Nil
  then show ?case by simp
next
  case (Cons a rs)
  show ?case
  proof (cases i)
    case 0
    with Cons.prems have "\<forall>r\<in>set rs. id_pk r \<noteq> id_pk t'" by (auto simp: image_iff)
    then have "map (\<lambda>r. if id_pk r = id_pk t' then t' else r) rs = rs"
      by (induction rs) auto
    with 0 Cons.prems show ?thesis by simp
  next
    case (Suc j)
    with Cons.prems have "id_pk a \<noteq> id_pk t'" by (auto simp: image_iff)
    with Suc Cons show ?thesis by simp
  qed
qed

section \<open>Ownership\<close>

text \<open>
  C1. Let \<open>t\<close> be a stored task whose owner is \<open>owner\<close>, and let the caller's verified
  identity and the path identity both be \<open>caller\<close>, different from \<open>owner\<close>. Then get,
  update, delete and toggle on the id of \<open>t\<close> each raise 404 "Task not found", and the
  rows of the table afterwards are the rows before.
\<close>

theorem wrong_owner_not_found:
  assumes stored: "t \<in> set (rows session)"
      and pk: "distinct (map id_pk (rows session))"
      and owned: "user_id t = owner"
      and other: "caller \<noteq> owner"
      and verified: "state_user_id request = JStr caller"
  shows "fst (get_task caller (id_pk t) request session)
           = Inl (HTTPException 404 ''Task not found'')
       \<and> rows (snd (get_task caller (id_pk t) request session)) = rows session
       \<and> fst (update_task caller (id_pk t) task_data request session now)
           = Inl (HTTPException 404 ''Task not found'')
       \<and> rows (snd (update_task caller (id_pk t) task_data request session now)) = rows session
       \<and> fst (delete_task caller (id_pk t) request session)
           = Inl (HTTPException 404 ''Task not found'')
       \<and> rows (snd (delete_task caller (id_pk t) request session)) = rows session
       \<and> fst (toggle_task_completion caller (id_pk t) request session now)
           = Inl (HTTPException 404 ''Task not found'')
       \<and> rows (snd (toggle_task_completion caller (id_pk t) request session now))
           = rows session"
proof -
  have found: "find (\<lambda>r. id_pk r = id_pk t) (rows session) = Some t"
    using pk stored by (rule find_stored)
  show ?thesis
    using found owned other verified
    by (simp add: get_task_def update_task_def delete_task_def toggle_task_completion_def
        session_get_def)
qed

theorem wrong_owner_not_found_witness:
  "milk \<in> set (rows example_session)
   \<and> distinct (map id_pk (rows example_session))
   \<and> user_id milk = ''u1''
   \<and> ''u2'' \<noteq> ''u1''
   \<and> state_user_id request_u2 = JStr ''u2''
   \<and> fst (get_task ''u2'' 5 request_u2 example_session)
       = Inl (HTTPException 404 ''Task not found'')
   \<and> rows (snd (get_task ''u2'' 5 request_u2 example_session)) = [milk, bread, taxes]
   \<and> fst (update_task ''u2'' 5 \<lparr>TaskUpdate.title = Some ''Mine'', TaskUpdate.description = None\<rparr>
            request_u2 example_session 1700000400000000)
       = Inl (HTTPException 404 ''Task not found'')
   \<and> rows (snd (delete_task ''u2'' 5 request_u2 example_session)) = [milk, bread, taxes]
   \<and> rows (snd (toggle_task_completion ''u2'' 5 request_u2 example_session 1700000400000000))
       = [milk, bread, taxes]"
  using wrong_owner_not_found [of milk example_session "''u1''" "''u2''" request_u2
      "\<lparr>TaskUpdate.title = Some ''Mine'', TaskUpdate.description = None\<rparr>" 1700000400000000]
  by (simp add: milk_def bread_def taxes_def example_session_def request_u2_def)

text \<open>
  C2. When the identity the middleware took from the token differs from the
  \<open>user_id\<close> of the path, each of the six handlers raises 403, not 404, and returns the
  session as it received it: no access is recorded and no row is changed.
\<close>

theorem identity_mismatch_forbidden:
  assumes "state_user_id request \<noteq> JStr path_user_id"
  shows "list_tasks path_user_id request session filter_status
           = (Inl (HTTPException 403 ''Cannot access other users' tasks''), session)
       \<and> create_task path_user_id new_data request session now_created now_updated
           = (Inl (HTTPException 403 ''Cannot create tasks for other users''), session)
       \<and> get_task path_user_id task_id request session
           = (Inl (HTTPException 403 ''Cannot access other users' tasks''), session)
       \<and> update_task path_user_id task_id task_data request session now
           = (Inl (HTTPException 403 ''Cannot update other users' tasks''), session)
       \<and> delete_task path_user_id task_id request session
           = (Inl (HTTPException 403 ''Cannot delete other users' tasks''), session)
       \<and> toggle_task_completion path_user_id task_id request session now
           = (Inl (HTTPException 403 ''Cannot update other users' tasks''), session)"
  using assms
  by (simp add: list_tasks_def create_task_def get_task_def update_task_def delete_task_def
      toggle_task_completion_def)

theorem identity_mismatch_forbidden_witness:
  "state_user_id request_u2 \<noteq> JStr ''u1''
   \<and> get_task ''u1'' 5 request_u2 example_session
       = (Inl (HTTPException 403 ''Cannot access other users' tasks''), example_session)
   \<and> list_tasks ''u1'' request_u2 example_session ''all''
       = (Inl (HTTPException 403 ''Cannot access other users' tasks''), example_session)
   \<and> delete_task ''u1'' 5 request_u2 example_session
       = (Inl (HTTPException 403 ''Cannot delete other users' tasks''), example_session)"
  using identity_mismatch_forbidden [of request_u2 "''u1''" example_session "''all''"
      "\<lparr>TaskCreate.title = ''x'', TaskCreate.description = None\<rparr>" 0 0 5
      "\<lparr>TaskUpdate.title = None, TaskUpdate.description = None\<rparr>" 0]
  by (simp add: request_u2_def)

section \<open>Listing\<close>

lemma map_model_dump: "map model_dump tasks = tasks"
  by (induction tasks) (simp_all add: model_dump_def)

lemma sorted_desc_sort_key:
  "sorted_wrt (\<lambda>a b. created_at b \<le> created_at a) (sort_key (\<lambda>r. - created_at r) rs)"
proof -
  have "sorted (map (\<lambda>r. - created_at r) (sort_key (\<lambda>r. - created_at r) rs))"
    by (rule sorted_sort_key)
  then show ?thesis
    by (simp add: sorted_map)
qed

text \<open>
  C6. For a caller whose verified identity is the path identity \<open>owner\<close>, and for every
  value of \<open>filter_status\<close>, the list handler succeeds with a sequence (possibly empty)
  that holds exactly the rows of \<open>owner\<close> matching the filter, each as often as the
  table holds it: \<open>pending\<close> keeps the rows with \<open>completed = False\<close>, \<open>completed\<close> those
  with \<open>completed = True\<close>, any other value all of them. The sequence is in descending
  order of \<open>created_at\<close>, and none of its rows belongs to another identity.
\<close>

theorem list_tasks_owner_filter_order:
  assumes verified: "state_user_id request = JStr owner"
  shows "\<exists>tasks. list_tasks owner request session filter_status
             = (Inr \<lparr>success = True, data = Some (TaskList tasks), error = None\<rparr>,
                session\<lparr>accesses := accesses session @ [Read]\<rparr>)
           \<and> mset tasks
               = {#r \<in># mset (rows session).
                    user_id r = owner
                    \<and> (filter_status = ''pending'' \<longrightarrow> \<not> completed r)
                    \<and> (filter_status = ''completed'' \<longrightarrow> completed r)#}
           \<and> sorted_wrt (\<lambda>a b. created_at b \<le> created_at a) tasks
           \<and> (\<forall>r \<in> set tasks. user_id r = owner)"
proof (cases "filter_status = ''pending''")
  case True
  then show ?thesis
    using verified
    by (auto simp: list_tasks_def session_exec_def map_model_dump sorted_desc_sort_key
        intro!: filter_mset_cong)
next
  case False
  then show ?thesis
    using verified
    by (auto simp: list_tasks_def session_exec_def map_model_dump sorted_desc_sort_key
        intro!: filter_mset_cong)
qed

theorem list_tasks_owner_filter_order_witness:
  "state_user_id request_u1 = JStr ''u1''
   \<and> fst (list_tasks ''u1'' request_u1 example_session ''all'')
       = Inr \<lparr>success = True, data = Some (TaskList [taxes, milk]), error = None\<rparr>
   \<and> fst (list_tasks ''u1'' request_u1 example_session ''pending'')
       = Inr \<lparr>success = True, data = Some (TaskList [milk]), error = None\<rparr>
   \<and> (\<exists>tasks. list_tasks ''u1'' request_u1 example_session ''completed''
          = (Inr \<lparr>success = True, data = Some (TaskList tasks), error = None\<rparr>,
             example_session\<lparr>accesses := accesses example_session @ [Read]\<rparr>)
        \<and> mset tasks = {#taxes#}
        \<and> sorted_wrt (\<lambda>a b. created_at b \<le> created_at a) tasks)"
  using list_tasks_owner_filter_order [of request_u1 "''u1''" example_session "''completed''"]
  by (simp add: list_tasks_def session_exec_def map_model_dump request_u1_def
      example_session_def milk_def bread_def taxes_def)

text \<open>
  C9. For a \<open>filter_status\<close> other than the strings \<open>pending\<close> and \<open>completed\<close>, the
  list handler does not raise: it returns all the rows of the owner, whatever their
  completion status, exactly as it does for the default \<open>all\<close>.
\<close>

theorem list_tasks_unrecognized_filter:
  assumes verified: "state_user_id request = JStr owner"
      and "filter_status \<noteq> ''pending''" and "filter_status \<noteq> ''completed''"
  shows "\<exists>tasks. list_tasks owner request session filter_status
             = (Inr \<lparr>success = True, data = Some (TaskList tasks), error = None\<rparr>,
                session\<lparr>accesses := accesses session @ [Read]\<rparr>)
           \<and> mset tasks = {#r \<in># mset (rows session). user_id r = owner#}
           \<and> list_tasks owner request session filter_status
               = list_tasks owner request session ''all''"
  using assms
  by (simp add: list_tasks_def session_exec_def map_model_dump)

theorem list_tasks_unrecognized_filter_witness:
  "state_user_id request_u1 = JStr ''u1''
   \<and> ''done'' \<noteq> ''pending'' \<and> ''done'' \<noteq> ''completed''
   \<and> fst (list_tasks ''u1'' request_u1 example_session ''done'')
       = Inr \<lparr>success = True, data = Some (TaskList [taxes, milk]), error = None\<rparr>
   \<and> list_tasks ''u1'' request_u1 example_session ''done''
       = list_tasks ''u1'' request_u1 example_session ''all''"
  using list_tasks_unrecognized_filter [of request_u1 "''u1''" "''done''" example_session]
  by (simp add: list_tasks_def session_exec_def map_model_dump request_u1_def
      example_session_def milk_def bread_def taxes_def)

section \<open>Toggling completion\<close>

lemma toggle_owned:
  assumes "find (\<lambda>r. id_pk r = id_pk t) (rows session) = Some t"
      and "user_id t = owner"
      and "state_user_id request = JStr owner"
  shows "toggle_task_completion owner (id_pk t) request session now
         = (Inr \<lparr>success = True,
                  data = Some (TaskData (t\<lparr>completed := \<not> completed t, updated_at := now\<rparr>)),
                  error = None\<rparr>,
            session\<lparr>rows := map (\<lambda>r. if id_pk r = id_pk t
                                       then t\<lparr>completed := \<not> completed t, updated_at := now\<rparr>
                                       else r) (rows session),
                    accesses := accesses session @ [Read, Write, Read]\<rparr>)"
  using assms
  by (simp add: toggle_task_completion_def session_get_def session_update_def model_dump_def
      Let_def)

text \<open>
  C7, as the code has it. For a stored task \<open>t\<close> owned by the caller, one toggle returns
  \<open>t\<close> with \<open>completed\<close> flipped and \<open>updated_at\<close> set to the clock reading of that call;
  a second toggle on the resulting session returns \<open>t\<close> with its original \<open>completed\<close> and
  \<open>updated_at\<close> set to the second reading. So \<open>updated_at\<close> strictly increases on each of
  the two calls when each reading is strictly later than the value stored before it.
\<close>

theorem toggle_twice:
  assumes stored: "t \<in> set (rows session)"
      and pk: "distinct (map id_pk (rows session))"
      and owned: "user_id t = owner"
      and verified: "state_user_id request = JStr owner"
  shows "fst (toggle_task_completion owner (id_pk t) request session now1)
           = Inr \<lparr>success = True,
                   data = Some (TaskData (t\<lparr>completed := \<not> completed t, updated_at := now1\<rparr>)),
                   error = None\<rparr>
       \<and> fst (toggle_task_completion owner (id_pk t) request
                (snd (toggle_task_completion owner (id_pk t) request session now1)) now2)
           = Inr \<lparr>success = True,
                   data = Some (TaskData (t\<lparr>completed := completed t, updated_at := now2\<rparr>)),
                   error = None\<rparr>
       \<and> (updated_at t < now1 \<and> now1 < now2 \<longrightarrow>
            updated_at t < updated_at (t\<lparr>completed := \<not> completed t, updated_at := now1\<rparr>)
            \<and> updated_at (t\<lparr>completed := \<not> completed t, updated_at := now1\<rparr>)
                < updated_at (t\<lparr>completed := completed t, updated_at := now2\<rparr>))"
proof -
  let ?t1 = "t\<lparr>completed := \<not> completed t, updated_at := now1\<rparr>"
  let ?s1 = "snd (toggle_task_completion owner (id_pk t) request session now1)"
  have found: "find (\<lambda>r. id_pk r = id_pk t) (rows session) = Some t"
    using pk stored by (rule find_stored)
  have first: "toggle_task_completion owner (id_pk t) request session now1
         = (Inr \<lparr>success = True, data = Some (TaskData ?t1), error = None\<rparr>,
            session\<lparr>rows := map (\<lambda>r. if id_pk r = id_pk t then ?t1 else r) (rows session),
                    accesses := accesses session @ [Read, Write, Read]\<rparr>)"
    using found owned verified by (rule toggle_owned)
  have "find (\<lambda>r. id_pk r = id_pk t) (map (\<lambda>r. if id_pk r = id_pk ?t1 then ?t1 else r) (rows session))
          = Some ?t1"
    using found by (rule find_after_update) simp
  then have found1: "find (\<lambda>r. id_pk r = id_pk ?t1) (rows ?s1) = Some ?t1"
    by (simp add: first)
  have "toggle_task_completion owner (id_pk ?t1) request ?s1 now2
         = (Inr \<lparr>success = True,
                  data = Some (TaskData (?t1\<lparr>completed := \<not> completed ?t1, updated_at := now2\<rparr>)),
                  error = None\<rparr>,
            ?s1\<lparr>rows := map (\<lambda>r. if id_pk r = id_pk ?t1
                                   then ?t1\<lparr>completed := \<not> completed ?t1, updated_at := now2\<rparr>
                                   else r) (rows ?s1),
                accesses := accesses ?s1 @ [Read, Write, Read]\<rparr>)"
    using found1 by (rule toggle_owned) (simp_all add: owned verified)
  then have second: "fst (toggle_task_completion owner (id_pk t) request ?s1 now2)
         = Inr \<lparr>success = True,
                 data = Some (TaskData (t\<lparr>completed := completed t, updated_at := now2\<rparr>)),
                 error = None\<rparr>"
    by simp
  show ?thesis
    using first second by simp
qed

theorem toggle_twice_witness:
  "milk \<in> set (rows example_session)
   \<and> distinct (map id_pk (rows example_session))
   \<and> user_id milk = ''u1''
   \<and> state_user_id request_u1 = JStr ''u1''
   \<and> fst (toggle_task_completion ''u1'' 5 request_u1 example_session 1700000400000000)
       = Inr \<lparr>success = True,
               data = Some (TaskData (milk\<lparr>completed := True, updated_at := 1700000400000000\<rparr>)),
               error = None\<rparr>
   \<and> fst (toggle_task_completion ''u1'' 5 request_u1
            (snd (toggle_task_completion ''u1'' 5 request_u1 example_session 1700000400000000))
            1700000500000000)
       = Inr \<lparr>success = True,
               data = Some (TaskData (milk\<lparr>updated_at := 1700000500000000\<rparr>)),
               error = None\<rparr>"
  using toggle_twice [of milk example_session "''u1''" request_u1 1700000400000000
      1700000500000000]
  by (simp add: milk_def bread_def taxes_def example_session_def request_u1_def)

text \<open>
  C7 as stated asks for a strict increase on every call. A toggle whose clock reading is
  not later than the stored \<open>updated_at\<close> (the wall clock was set back by one second)
  stores that reading: \<open>updated_at\<close> does not increase.
\<close>

theorem toggle_clock_not_later_counterexample:
  "fst (toggle_task_completion ''u1'' 5 request_u1 example_session 1699999999000000)
     = Inr \<lparr>success = True,
             data = Some (TaskData (milk\<lparr>completed := True, updated_at := 1699999999000000\<rparr>)),
             error = None\<rparr>
   \<and> \<not> updated_at milk < updated_at (milk\<lparr>completed := True, updated_at := 1699999999000000\<rparr>)"
  by (simp add: toggle_task_completion_def session_get_def session_update_def model_dump_def
      Let_def milk_def bread_def taxes_def example_session_def request_u1_def)

section \<open>Updating\<close>

text \<open>
  C8. For a stored task \<open>t\<close> owned by the caller, at index \<open>i\<close> of the table, update
  returns and stores a row \<open>t'\<close> in which \<open>title\<close> and \<open>description\<close> are the stripped
  values of the body where the body supplies them and the stored values where it does
  not, \<open>updated_at\<close> is the clock reading of the call whether or not a field was
  supplied, and \<open>id\<close>, \<open>user_id\<close>, \<open>completed\<close> and \<open>created_at\<close> are those of \<open>t\<close>. The
  table changes at index \<open>i\<close> only.
\<close>

theorem update_task_frame:
  assumes index: "i < length (rows session)"
      and stored: "rows session ! i = t"
      and pk: "distinct (map id_pk (rows session))"
      and owned: "user_id t = owner"
      and verified: "state_user_id request = JStr owner"
  shows "\<exists>t'. update_task owner (id_pk t) task_data request session now
               = (Inr \<lparr>success = True, data = Some (TaskData t'), error = None\<rparr>,
                  session\<lparr>rows := (rows session)[i := t'],
                          accesses := accesses session @ [Read, Write, Read]\<rparr>)
           \<and> title t' = (case TaskUpdate.title task_data of
                           None \<Rightarrow> title t | Some s \<Rightarrow> strip s)
           \<and> description t' = (case TaskUpdate.description task_data of
                                 None \<Rightarrow> description t | Some d \<Rightarrow> Some (strip d))
           \<and> updated_at t' = now
           \<and> id_pk t' = id_pk t
           \<and> user_id t' = user_id t
           \<and> completed t' = completed t
           \<and> created_at t' = created_at t"
proof -
  have found: "find (\<lambda>r. id_pk r = id_pk t) (rows session) = Some t"
    using pk index stored by (auto intro: find_stored)
  let ?t1 = "case TaskUpdate.title task_data of None \<Rightarrow> t | Some s \<Rightarrow> t\<lparr>title := strip s\<rparr>"
  let ?t2 = "case TaskUpdate.description task_data of
               None \<Rightarrow> ?t1 | Some d \<Rightarrow> ?t1\<lparr>description := Some (strip d)\<rparr>"
  let ?t' = "?t2\<lparr>updated_at := now\<rparr>"
  have same_id: "id_pk ?t' = id_pk (rows session ! i)"
    using stored by (simp split: option.splits)
  have rows': "map (\<lambda>r. if id_pk r = id_pk ?t' then ?t' else r) (rows session)
                 = (rows session)[i := ?t']"
    using pk index same_id by (rule map_update_distinct)
  have "update_task owner (id_pk t) task_data request session now
          = (Inr \<lparr>success = True, data = Some (TaskData ?t'), error = None\<rparr>,
             session\<lparr>rows := map (\<lambda>r. if id_pk r = id_pk ?t' then ?t' else r) (rows session),
                     accesses := accesses session @ [Read, Write, Read]\<rparr>)"
    using found owned verified
    by (simp add: update_task_def session_get_def session_update_def model_dump_def Let_def)
  then have "update_task owner (id_pk t) task_data request session now
          = (Inr \<lparr>success = True, data = Some (TaskData ?t'), error = None\<rparr>,
             session\<lparr>rows := (rows session)[i := ?t'],
                     accesses := accesses session @ [Read, Write, Read]\<rparr>)"
    by (simp only: rows')
  moreover have "title ?t' = (case TaskUpdate.title task_data of
                           None \<Rightarrow> title t | Some s \<Rightarrow> strip s)"
    by (simp split: option.splits)
  moreover have "description ?t' = (case TaskUpdate.description task_data of
                                 None \<Rightarrow> description t | Some d \<Rightarrow> Some (strip d))"
    by (simp split: option.splits)
  moreover have "updated_at ?t' = now \<and> id_pk ?t' = id_pk t \<and> user_id ?t' = user_id t
      \<and> completed ?t' = completed t \<and> created_at ?t' = created_at t"
    by (simp split: option.splits)
  ultimately show ?thesis by blast
qed

theorem update_task_frame_witness:
  "0 < length (rows example_session)
   \<and> rows example_session ! 0 = milk
   \<and> distinct (map id_pk (rows example_session))
   \<and> user_id milk = ''u1''
   \<and> state_user_id request_u1 = JStr ''u1''
   \<and> update_task ''u1'' 5 \<lparr>TaskUpdate.title = Some ''  Buy oat milk  '',
                               TaskUpdate.description = None\<rparr>
        request_u1 example_session 1700000500000000
       = (Inr \<lparr>success = True,
                data = Some (TaskData (milk\<lparr>title := ''Buy oat milk'',
                                            updated_at := 1700000500000000\<rparr>)),
                error = None\<rparr>,
          \<lparr>rows = [milk\<lparr>title := ''Buy oat milk'', updated_at := 1700000500000000\<rparr>,
                   bread, taxes],
           next_id = 8, accesses = [Read, Write, Read]\<rparr>)
   \<and> fst (update_task ''u1'' 5 \<lparr>TaskUpdate.title = None, TaskUpdate.description = None\<rparr>
        request_u1 example_session 1700000500000000)
       = Inr \<lparr>success = True,
               data = Some (TaskData (milk\<lparr>updated_at := 1700000500000000\<rparr>)),
               error = None\<rparr>"
  using update_task_frame [of 0 example_session milk "''u1''" request_u1
      "\<lparr>TaskUpdate.title = Some ''  Buy oat milk  '', TaskUpdate.description = None\<rparr>"
      1700000500000000]
  by (simp add: update_task_def session_get_def session_update_def model_dump_def Let_def
      strip_def isspace_def milk_def bread_def taxes_def example_session_def request_u1_def)

section \<open>Token verification\<close>

lemma verify_jwt_rejected:
  "jwt_decode token SECRET_KEY = Inl e \<Longrightarrow>
   verify_jwt jwt_decode SECRET_KEY utcoffset now token = None"
  by (cases e) (simp_all add: verify_jwt_def)

lemma verify_jwt_decoded:
  "jwt_decode token SECRET_KEY = Inr p \<Longrightarrow>
   verify_jwt jwt_decode SECRET_KEY utcoffset now token
     = (if truthy (py_get p ''exp'')
        then (case fromtimestamp utcoffset (py_get p ''exp'') of
                Inl e \<Rightarrow> None
              | Inr expires \<Rightarrow> if expires < now then None else Some p)
        else Some p)"
  by (simp add: verify_jwt_def Let_def)




lemma pyjwt_decode_no_exp:
  "checks token key = Inr p \<Longrightarrow> map_of p ''exp'' = None \<Longrightarrow>
   pyjwt_decode checks int_of_str now token key = Inr p"
  by (simp add: pyjwt_decode_def)

lemma pyjwt_decode_expired:
  "checks token key = Inr p \<Longrightarrow> map_of p ''exp'' = Some (JInt t) \<Longrightarrow> t * 1000000 \<le> now \<Longrightarrow>
   pyjwt_decode checks int_of_str now token key = Inl InvalidTokenError"
  by (simp add: pyjwt_decode_def)

text \<open>
  C10, as the code has it. Let the signature of the token verify under the configured
  key, with payload \<open>p\<close> (every check of \<open>jwt.decode\<close> other than the expiry check
  passes). When \<open>p\<close> has no \<open>exp\<close>, the verifier returns \<open>p\<close>, at every verification
  instant and in every time zone: such a token is never treated as expired. When the
  \<open>exp\<close> of \<open>p\<close> is 0, \<open>jwt.decode\<close> itself raises at every clock reading after the epoch,
  and the verifier returns no claims.
\<close>

theorem verify_jwt_no_exp_accepted_exp_zero_rejected:
  assumes verified: "checks token SECRET_KEY = Inr p"
  shows "(map_of p ''exp'' = None \<longrightarrow>
            verify_jwt (pyjwt_decode checks int_of_str library_now) SECRET_KEY utcoffset now token
              = Some p)
       \<and> (map_of p ''exp'' = Some (JInt 0) \<and> 0 < library_now \<longrightarrow>
            verify_jwt (pyjwt_decode checks int_of_str library_now) SECRET_KEY utcoffset now token
              = None)"
proof (intro conjI impI)
  assume absent: "map_of p ''exp'' = None"
  have "pyjwt_decode checks int_of_str library_now token SECRET_KEY = Inr p"
    using verified absent by (rule pyjwt_decode_no_exp)
  moreover have "py_get p ''exp'' = JNone"
    using absent by (simp add: py_get_def)
  ultimately show "verify_jwt (pyjwt_decode checks int_of_str library_now) SECRET_KEY utcoffset
      now token = Some p"
    by (simp add: verify_jwt_decoded)
next
  assume zero: "map_of p ''exp'' = Some (JInt 0) \<and> 0 < library_now"
  then have "pyjwt_decode checks int_of_str library_now token SECRET_KEY = Inl InvalidTokenError"
    using verified by (simp add: pyjwt_decode_expired [where t = 0])
  then show "verify_jwt (pyjwt_decode checks int_of_str library_now) SECRET_KEY utcoffset
      now token = None"
    by (rule verify_jwt_rejected)
qed

theorem verify_jwt_no_exp_accepted_exp_zero_rejected_witness:
  "example_checks ''no-exp'' ''secret''
     = Inr [(''sub'', JStr ''u1''), (''email'', JStr ''u1@example.com'')]
   \<and> map_of [(''sub'', JStr ''u1''), (''email'', JStr ''u1@example.com'')] ''exp'' = None
   \<and> verify_jwt (pyjwt_decode example_checks example_int 4102444799000000) ''secret'' UTC
        4102444800000000 ''no-exp''
       = Some [(''sub'', JStr ''u1''), (''email'', JStr ''u1@example.com'')]
   \<and> example_checks ''exp-zero'' ''secret''
       = Inr [(''sub'', JStr ''u1''), (''email'', JStr ''u1@example.com''), (''exp'', JInt 0)]
   \<and> (0 :: int) < 1
   \<and> verify_jwt (pyjwt_decode example_checks example_int 1) ''secret'' UTC 2 ''exp-zero''
       = None"
  using verify_jwt_no_exp_accepted_exp_zero_rejected [of example_checks "''no-exp''" "''secret''"
      "[(''sub'', JStr ''u1''), (''email'', JStr ''u1@example.com'')]" example_int
      4102444799000000 UTC 4102444800000000]
    verify_jwt_no_exp_accepted_exp_zero_rejected [of example_checks "''exp-zero''" "''secret''"
      "[(''sub'', JStr ''u1''), (''email'', JStr ''u1@example.com''), (''exp'', JInt 0)]"
      example_int 1 UTC 2]
  by (simp add: example_checks_def)

text \<open>
  C10 as stated has a token with \<open>exp\<close> 0 accepted at every verification instant. The
  guard \<open>if exp and ...\<close> of the verifier would skip it, but the token does not get
  that far: \<open>jwt.decode\<close> rejects it as expired and the verifier returns \<open>None\<close>.
\<close>

theorem verify_jwt_exp_zero_counterexample:
  "example_checks ''exp-zero'' ''secret''
     = Inr [(''sub'', JStr ''u1''), (''email'', JStr ''u1@example.com''), (''exp'', JInt 0)]
   \<and> py_get [(''sub'', JStr ''u1''), (''email'', JStr ''u1@example.com''), (''exp'', JInt 0)]
        ''exp'' = JInt 0
   \<and> verify_jwt (pyjwt_decode example_checks example_int 1700000000000000) ''secret'' UTC
        1700000000000000 ''exp-zero''
       = None"
  by (simp add: verify_jwt_def pyjwt_decode_def example_checks_def py_get_def)

section \<open>Titles\<close>

lemma length_strip: "length (strip s) \<le> length s"
proof -
  have "length (dropWhile isspace (rev (dropWhile isspace s))) \<le> length (rev (dropWhile isspace s))"
    by (rule length_dropWhile_le)
  also have "\<dots> \<le> length s"
    by (simp add: length_dropWhile_le)
  finally show ?thesis by (simp add: strip_def)
qed

text \<open>
  The title of an accepted create request has between 1 and 200 characters as sent, and
  the stored title, stripped, has at most 200.
\<close>

lemma validated_title_bounds:
  "validate_TaskCreate body = Inr d \<Longrightarrow>
   1 \<le> length (TaskCreate.title d) \<and> length (strip (TaskCreate.title d)) \<le> 200"
proof -
  assume ok: "validate_TaskCreate body = Inr d"
  then have "1 \<le> length (TaskCreate.title d) \<and> length (TaskCreate.title d) \<le> 200"
    by (auto simp: validate_TaskCreate_def Suc_le_eq split: option.splits json.splits if_splits)
  moreover have "length (strip (TaskCreate.title d)) \<le> length (TaskCreate.title d)"
    by (rule length_strip)
  ultimately show ?thesis by linarith
qed

text \<open>
  C3 asks that no accepted request stores an empty title. The body \<open>{"title": " "}\<close>
  passes the schema, whose \<open>min_length=1\<close> is checked on the title as sent; the handler
  then stores the stripped title, which is empty. The same happens on update.
\<close>

theorem whitespace_title_stored_empty:
  "validate_TaskCreate [(''title'', JStr '' '')]
     = Inr \<lparr>TaskCreate.title = '' '', TaskCreate.description = None\<rparr>
   \<and> create_task ''u1'' \<lparr>TaskCreate.title = '' '', TaskCreate.description = None\<rparr>
        request_u1 empty_session 1700000000000000 1700000000000001
       = (Inr \<lparr>success = True,
                data = Some (TaskData \<lparr>id_pk = 1, user_id = ''u1'', title = '''',
                                       description = None, completed = False,
                                       created_at = 1700000000000000,
                                       updated_at = 1700000000000001\<rparr>),
                error = None\<rparr>,
          \<lparr>rows = [\<lparr>id_pk = 1, user_id = ''u1'', title = '''', description = None,
                     completed = False, created_at = 1700000000000000,
                     updated_at = 1700000000000001\<rparr>],
           next_id = 2, accesses = [Write, Read]\<rparr>)
   \<and> validate_TaskUpdate [(''title'', JStr '' '')]
       = Inr \<lparr>TaskUpdate.title = Some '' '', TaskUpdate.description = None\<rparr>
   \<and> rows (snd (update_task ''u1'' 5
                   \<lparr>TaskUpdate.title = Some '' '', TaskUpdate.description = None\<rparr>
                   request_u1 example_session 1700000500000000))
       = [milk\<lparr>title := '''', updated_at := 1700000500000000\<rparr>, bread, taxes]"
  by (simp add: validate_TaskCreate_def validate_TaskUpdate_def py_get_def create_task_def
      update_task_def session_insert_def session_get_def session_update_def model_dump_def
      Let_def strip_def isspace_def request_u1_def empty_session_def example_session_def
      milk_def bread_def taxes_def)

section \<open>Responses\<close>

text \<open>
  C5, as the code has it. Every outcome of the six handlers is either an envelope with
  \<open>success\<close> true, \<open>data\<close> present and \<open>error\<close> absent, or a raised \<open>HTTPException\<close> with
  status 403 (all six) or 404 (get, update, delete, toggle) and a detail string; the
  middleware raises with status 401 or lets the request through. No handler returns an
  envelope with \<open>success\<close> false.
\<close>

theorem responses_success_envelope_or_raised:
  "raised_or_success {403} (fst (list_tasks path_user_id request session filter_status))
   \<and> raised_or_success {403}
       (fst (create_task path_user_id new_data request session now_created now_updated))
   \<and> raised_or_success {403, 404} (fst (get_task path_user_id task_id request session))
   \<and> raised_or_success {403, 404}
       (fst (update_task path_user_id task_id task_data request session now))
   \<and> raised_or_success {403, 404} (fst (delete_task path_user_id task_id request session))
   \<and> raised_or_success {403, 404}
       (fst (toggle_task_completion path_user_id task_id request session now))
   \<and> (case verify_jwt_middleware jwt_decode SECRET_KEY utcoffset now auth_header of
         Inl exc \<Rightarrow> status_code exc = 401
       | Inr authenticated \<Rightarrow> True)"
proof -
  have "raised_or_success {403} (fst (list_tasks path_user_id request session filter_status))"
    by (simp add: raised_or_success_def list_tasks_def session_exec_def Let_def)
  moreover have "raised_or_success {403}
       (fst (create_task path_user_id new_data request session now_created now_updated))"
    by (simp add: raised_or_success_def create_task_def session_insert_def Let_def)
  moreover have "raised_or_success {403, 404} (fst (get_task path_user_id task_id request session))"
    by (simp add: raised_or_success_def get_task_def session_get_def Let_def split: option.splits)
  moreover have "raised_or_success {403, 404}
       (fst (update_task path_user_id task_id task_data request session now))"
    by (simp add: raised_or_success_def update_task_def session_get_def session_update_def Let_def
        split: option.splits)
  moreover have "raised_or_success {403, 404} (fst (delete_task path_user_id task_id request session))"
    by (simp add: raised_or_success_def delete_task_def session_get_def session_delete_def Let_def
        split: option.splits)
  moreover have "raised_or_success {403, 404}
       (fst (toggle_task_completion path_user_id task_id request session now))"
    by (simp add: raised_or_success_def toggle_task_completion_def session_get_def session_update_def
        Let_def split: option.splits)
  moreover have "case verify_jwt_middleware jwt_decode SECRET_KEY utcoffset now auth_header of
         Inl exc \<Rightarrow> status_code exc = 401
       | Inr authenticated \<Rightarrow> True"
    by (simp add: verify_jwt_middleware_def split: option.splits list.splits)
  ultimately show ?thesis by simp
qed

theorem responses_success_envelope_or_raised_witness:
  "raised_or_success {403, 404} (fst (get_task ''u1'' 5 request_u1 example_session))
   \<and> fst (get_task ''u1'' 5 request_u1 example_session)
       = Inr \<lparr>success = True, data = Some (TaskData milk), error = None\<rparr>
   \<and> raised_or_success {403, 404} (fst (get_task ''u1'' 6 request_u1 example_session))
   \<and> fst (get_task ''u1'' 6 request_u1 example_session)
       = Inl (HTTPException 404 ''Task not found'')"
  using responses_success_envelope_or_raised [of "''u1''" request_u1 example_session "''all''"
      "\<lparr>TaskCreate.title = ''x'', TaskCreate.description = None\<rparr>" 0 0 5
      "\<lparr>TaskUpdate.title = None, TaskUpdate.description = None\<rparr>" 0 example_decode
      "''secret''" UTC None]
    responses_success_envelope_or_raised [of "''u1''" request_u1 example_session "''all''"
      "\<lparr>TaskCreate.title = ''x'', TaskCreate.description = None\<rparr>" 0 0 6
      "\<lparr>TaskUpdate.title = None, TaskUpdate.description = None\<rparr>" 0 example_decode
      "''secret''" UTC None]
  by (simp add: get_task_def session_get_def model_dump_def request_u1_def
      example_session_def milk_def bread_def taxes_def)

text \<open>
  C5 as stated asks for an envelope with \<open>success\<close> false on every failure. A missing
  task, a mismatched identity and a missing header each raise an \<open>HTTPException\<close> with a
  bare detail string; no envelope is built.
\<close>

theorem not_found_is_raised_counterexample:
  "fst (get_task ''u1'' 5 request_u1 empty_session)
     = Inl (HTTPException 404 ''Task not found'')
   \<and> fst (get_task ''u1'' 5 request_u2 example_session)
     = Inl (HTTPException 403 ''Cannot access other users' tasks'')
   \<and> verify_jwt_middleware example_decode ''secret'' UTC 1700000000000000 None
     = Inl (HTTPException 401 ''Missing Authorization header'')"
  by (simp add: get_task_def session_get_def request_u1_def request_u2_def empty_session_def
      verify_jwt_middleware_def)

end
